theory Spec2Isabelle
  imports Complex_Main "HOL-Library.Sublist"
begin

section \<open>Python values used by the checker\<close>

text \<open>
  The checker of \<^verbatim>\<open>excel_automation_checker.py\<close> works on Python strings, unbounded
  integers and floats. Strings are modelled as \<open>string\<close> (one \<open>char\<close> per character,
  case mapping on the ASCII letters), counters as \<open>nat\<close>, integer scores as \<open>int\<close> and
  floats as exact rationals. A call on the workbook object that raises is a value
  \<open>Inl msg\<close>, \<open>msg\<close> being the text of the exception (\<^verbatim>\<open>str(e)\<close>).
\<close>

type_synonym 'a raises = "string + 'a"

text \<open>\<^verbatim>\<open>d.get(key, default)\<close> on a dictionary whose key may be absent.\<close>

definition dict_get :: "'a option \<Rightarrow> 'a \<Rightarrow> 'a" where
  "dict_get v d = (case v of None \<Rightarrow> d | Some x \<Rightarrow> x)"

definition is_upper :: "char \<Rightarrow> bool" where
  "is_upper c = (65 \<le> (of_char c :: nat) \<and> (of_char c :: nat) \<le> 90)"

definition is_lower :: "char \<Rightarrow> bool" where
  "is_lower c = (97 \<le> (of_char c :: nat) \<and> (of_char c :: nat) \<le> 122)"

definition is_digit :: "char \<Rightarrow> bool" where
  "is_digit c = (48 \<le> (of_char c :: nat) \<and> (of_char c :: nat) \<le> 57)"

definition is_space :: "char \<Rightarrow> bool" where
  "is_space c = (let n = (of_char c :: nat) in (9 \<le> n \<and> n \<le> 13) \<or> (28 \<le> n \<and> n \<le> 32))"

definition lower_char :: "char \<Rightarrow> char" where
  "lower_char c = (if is_upper c then char_of ((of_char c :: nat) + 32) else c)"

definition upper_char :: "char \<Rightarrow> char" where
  "upper_char c = (if is_lower c then char_of ((of_char c :: nat) - 32) else c)"

definition lower :: "string \<Rightarrow> string" where
  "lower s = map lower_char s"

definition upper :: "string \<Rightarrow> string" where
  "upper s = map upper_char s"

text \<open>\<^verbatim>\<open>sub in s\<close>: \<open>sub\<close> occurs in \<open>s\<close> as a contiguous run.\<close>

fun contains :: "string \<Rightarrow> string \<Rightarrow> bool" where
  "contains sub [] = (sub = [])"
| "contains sub (c # cs) = (prefix sub (c # cs) \<or> contains sub cs)"

text \<open>\<^verbatim>\<open>any(p in s for p in ps)\<close>.\<close>

definition contains_any :: "string list \<Rightarrow> string \<Rightarrow> bool" where
  "contains_any ps s = list_ex (\<lambda>p. contains p s) ps"

definition startswith :: "string \<Rightarrow> string \<Rightarrow> bool" where
  "startswith s p = prefix p s"

definition endswith :: "string \<Rightarrow> string \<Rightarrow> bool" where
  "endswith s p = suffix p s"

definition strip :: "string \<Rightarrow> string" where
  "strip s = rev (dropWhile is_space (rev (dropWhile is_space s)))"

text \<open>Python's \<^verbatim>\<open>round(x, n)\<close>: to the nearest multiple of \<open>10^-n\<close>, ties to even.\<close>

definition round_half_even :: "rat \<Rightarrow> int" where
  "round_half_even x =
     (let f = \<lfloor>x\<rfloor>; d = x - of_int f
      in if d < 1 / 2 then f
         else if 1 / 2 < d then f + 1
         else if even f then f else f + 1)"

definition py_round :: "rat \<Rightarrow> nat \<Rightarrow> rat" where
  "py_round x n = of_int (round_half_even (x * 10 ^ n)) / 10 ^ n"

text \<open>Decimal rendering of the numbers that appear inside the messages.\<close>

definition digit_char :: "nat \<Rightarrow> char" where
  "digit_char d = char_of (48 + d mod 10)"

function show_nat :: "nat \<Rightarrow> string" where
  "show_nat n = (if n < 10 then [digit_char n] else show_nat (n div 10) @ [digit_char n])"
  by pat_completeness auto
termination
  by (relation "measure id") auto

declare show_nat.simps [simp del]

text \<open>\<^verbatim>\<open>f"{x:.1f}"\<close> for a non-negative \<open>x\<close>.\<close>

definition show_1f :: "rat \<Rightarrow> string" where
  "show_1f x =
     (let t = nat (round_half_even (x * 10))
      in show_nat (t div 10) @ ''.'' @ [digit_char t])"

section \<open>The workbook as the checker sees it\<close>

text \<open>
  The openpyxl objects are read through a fixed set of attributes. Each attribute read
  that the source guards with \<^verbatim>\<open>try\<close> may raise; \<open>None\<close> under \<open>raises\<close> is an
  attribute that \<^verbatim>\<open>hasattr\<close> does not find.
\<close>

record cell =
  cell_value :: "string option"
  cell_has_data_validation :: bool
  cell_data_type :: string

record sheet =
  sheet_title :: string
  sheet_state :: "string option raises"
  sheet_dims :: "(nat option \<times> nat option) raises"
  sheet_merged_ranges :: "nat option raises"
  sheet_protection :: "bool option raises"
  sheet_rows :: "(cell raises list) raises list"
  sheet_tables :: "nat option raises"

record workbook =
  wb_worksheets :: "sheet list"
  wb_defined_names :: "nat option raises"
  wb_vba_archive :: bool

definition sheetnames :: "workbook \<Rightarrow> string list" where
  "sheetnames wb = map sheet_title (wb_worksheets wb)"

record structure_analysis =
  sa_total_sheets :: "nat option"
  sa_sheet_names :: "string list option"
  sa_named_ranges :: "nat option"
  sa_has_hidden_sheets :: "bool option"
  sa_has_very_hidden_sheets :: "bool option"
  sa_file_size_mb :: "rat option"
  sa_structure_score :: "int option"
  sa_sheet_types :: "(nat \<times> nat \<times> nat) option"
  sa_analysis_errors :: "string list option"

definition empty_structure :: structure_analysis where
  "empty_structure =
     \<lparr>sa_total_sheets = None, sa_sheet_names = None, sa_named_ranges = None,
      sa_has_hidden_sheets = None, sa_has_very_hidden_sheets = None, sa_file_size_mb = None,
      sa_structure_score = None, sa_sheet_types = None, sa_analysis_errors = None\<rparr>"

section \<open>analyze\_file\_structure\<close>

record visibility =
  vis_has_hidden :: bool
  vis_has_very_hidden :: bool
  vis_visible :: nat
  vis_hidden :: nat
  vis_very_hidden :: nat

definition visibility_step :: "string option \<Rightarrow> visibility \<Rightarrow> visibility" where
  "visibility_step st v =
     (case st of
        None \<Rightarrow> v\<lparr>vis_visible := vis_visible v + 1\<rparr>
      | Some s \<Rightarrow>
          if s = ''hidden'' then v\<lparr>vis_has_hidden := True, vis_hidden := vis_hidden v + 1\<rparr>
          else if s = ''veryHidden''
            then v\<lparr>vis_has_very_hidden := True, vis_very_hidden := vis_very_hidden v + 1\<rparr>
          else v\<lparr>vis_visible := vis_visible v + 1\<rparr>)"

text \<open>
  The loop over \<^verbatim>\<open>self.workbook.worksheets\<close>; a sheet whose state cannot be read ends
  the loop with the exception, the flags set so far stay.
\<close>

fun visibility_loop :: "sheet list \<Rightarrow> visibility \<Rightarrow> visibility \<times> string option" where
  "visibility_loop [] v = (v, None)"
| "visibility_loop (s # ss) v =
     (case sheet_state s of
        Inl e \<Rightarrow> (v, Some e)
      | Inr st \<Rightarrow> visibility_loop ss (visibility_step st v))"

definition file_size_mb_of :: "nat \<Rightarrow> rat" where
  "file_size_mb_of bytes = py_round (of_nat bytes / (1024 * 1024)) 2"

text \<open>The scoring block of \<^verbatim>\<open>analyze_file_structure\<close>, up to the final clamp.\<close>

definition structure_score_of :: "nat \<Rightarrow> nat \<Rightarrow> bool \<Rightarrow> bool \<Rightarrow> rat \<Rightarrow> int" where
  "structure_score_of total_sheets named_ranges has_hidden has_very_hidden file_size_mb =
     (let score = 70;
          score = (if 1 \<le> total_sheets \<and> total_sheets \<le> 10 then score + 15
                   else if 11 \<le> total_sheets \<and> total_sheets \<le> 20 then score + 5
                   else if total_sheets > 30 then score - 20
                   else score);
          score = (if named_ranges > 0
                   then (if named_ranges \<le> 10 then score + 15 else score + 5)
                   else score);
          score = (if has_hidden then score - 5 else score);
          score = (if has_very_hidden then score - 10 else score);
          score = (if file_size_mb < 5 then score + 5
                   else if file_size_mb > 50 then score - 15
                   else score)
      in max 0 (min 100 score))"

text \<open>
  The body of the outer \<^verbatim>\<open>try\<close>. Reading the file size is not guarded by an inner
  \<^verbatim>\<open>try\<close>, so its exception leaves the body.
\<close>

definition analyze_file_structure_body ::
  "workbook \<Rightarrow> string option \<Rightarrow> nat raises \<Rightarrow> structure_analysis raises" where
  "analyze_file_structure_body wb file_path getsize =
     (let total_sheets = length (sheetnames wb);
          names = sheetnames wb
      in case (if file_path \<noteq> None \<and> file_path \<noteq> Some []
               then map_sum id file_size_mb_of getsize else Inr 0) of
           Inl e \<Rightarrow> Inl e
         | Inr file_size_mb \<Rightarrow>
             (let (named_ranges, errors) =
                    (case wb_defined_names wb of
                       Inr (Some n) \<Rightarrow> (n, [])
                     | Inr None \<Rightarrow> (0, [])
                     | Inl e \<Rightarrow> (0, [''Named ranges analysis failed: '' @ e]));
                  (v, failed) =
                    visibility_loop (wb_worksheets wb)
                      \<lparr>vis_has_hidden = False, vis_has_very_hidden = False,
                       vis_visible = 0, vis_hidden = 0, vis_very_hidden = 0\<rparr>;
                  errors = (case failed of
                              None \<Rightarrow> errors
                            | Some e \<Rightarrow> errors @ [''Sheet visibility analysis failed: '' @ e]);
                  score = structure_score_of total_sheets named_ranges
                            (vis_has_hidden v) (vis_has_very_hidden v) file_size_mb
              in Inr \<lparr>sa_total_sheets = Some total_sheets,
                      sa_sheet_names = Some names,
                      sa_named_ranges = Some named_ranges,
                      sa_has_hidden_sheets = Some (vis_has_hidden v),
                      sa_has_very_hidden_sheets = Some (vis_has_very_hidden v),
                      sa_file_size_mb = Some file_size_mb,
                      sa_structure_score = Some score,
                      sa_sheet_types = Some (vis_visible v, vis_hidden v, vis_very_hidden v),
                      sa_analysis_errors = Some errors\<rparr>))"

definition analyze_file_structure ::
  "workbook option \<Rightarrow> string option \<Rightarrow> nat raises \<Rightarrow> structure_analysis" where
  "analyze_file_structure wbo file_path getsize =
     (case wbo of
        None \<Rightarrow> empty_structure
      | Some wb \<Rightarrow>
          (case analyze_file_structure_body wb file_path getsize of
             Inr r \<Rightarrow> r
           | Inl e \<Rightarrow>
               empty_structure
                 \<lparr>sa_total_sheets := Some 0, sa_structure_score := Some 0,
                  sa_analysis_errors := Some [''Critical structure analysis error: '' @ e]\<rparr>))"

section \<open>analyze\_sheet\_data and the consistency score\<close>

text \<open>
  The result dictionary of \<^verbatim>\<open>analyze_sheet_data\<close>. Every later stage reads it with
  \<^verbatim>\<open>.get\<close>, and the function returns \<^verbatim>\<open>{}\<close> for an unknown sheet, so each key is
  optional. The keys that are initialised and never touched again (\<^verbatim>\<open>data_types\<close>,
  \<^verbatim>\<open>blank_rows\<close>, \<^verbatim>\<open>blank_columns\<close>, \<^verbatim>\<open>formatting_complexity\<close>,
  \<^verbatim>\<open>conditional_formatting_rules\<close>) are left out.
\<close>

record sheet_analysis =
  an_sheet_name :: "string option"
  an_dimensions :: "(nat \<times> nat) option"
  an_total_cells :: "nat option"
  an_used_cells :: "nat option"
  an_formula_cells :: "nat option"
  an_merged_cells :: "nat option"
  an_has_tables :: "bool option"
  an_has_data_validation :: "bool option"
  an_data_consistency_score :: "int option"
  an_formulas :: "string list option"
  an_formula_types :: "(string \<times> nat) list option"
  an_headers_detected :: "string list option"
  an_analysis_errors :: "string list option"
  an_sheet_protection :: "bool option"

definition empty_analysis :: sheet_analysis where
  "empty_analysis =
     \<lparr>an_sheet_name = None, an_dimensions = None, an_total_cells = None, an_used_cells = None,
      an_formula_cells = None, an_merged_cells = None, an_has_tables = None,
      an_has_data_validation = None, an_data_consistency_score = None, an_formulas = None,
      an_formula_types = None, an_headers_detected = None, an_analysis_errors = None,
      an_sheet_protection = None\<rparr>"

definition initial_analysis :: "string \<Rightarrow> sheet_analysis" where
  "initial_analysis sheet_name =
     \<lparr>an_sheet_name = Some sheet_name, an_dimensions = Some (0, 0), an_total_cells = Some 0,
      an_used_cells = Some 0, an_formula_cells = Some 0, an_merged_cells = Some 0,
      an_has_tables = Some False, an_has_data_validation = Some False,
      an_data_consistency_score = Some 0, an_formulas = Some [],
      an_formula_types = Some [], an_headers_detected = Some [],
      an_analysis_errors = Some [], an_sheet_protection = Some False\<rparr>"

definition calculate_consistency_score :: "sheet_analysis \<Rightarrow> int" where
  "calculate_consistency_score a =
     (let score = 70;
          score = (if dict_get (an_has_tables a) False then score + 20 else score);
          score = (if dict_get (an_has_data_validation a) False then score + 15 else score);
          score = (if length (dict_get (an_headers_detected a) []) > 0 then score + 10 else score);
          used_cells = max 1 (dict_get (an_used_cells a) 1);
          merged_cells = dict_get (an_merged_cells a) 0;
          score = (if merged_cells > 0
                   then (let merged_ratio = (of_nat merged_cells / of_nat used_cells :: rat)
                         in if merged_ratio > 2 / 10 then score - 30
                            else if merged_ratio > 1 / 10 then score - 15
                            else score - 5)
                   else score);
          total_cells = max 1 (dict_get (an_total_cells a) 1);
          score = (if used_cells > 0 \<and> total_cells > 100
                   then (let density = (of_nat used_cells / of_nat total_cells :: rat)
                         in if density < 5 / 100 then score - 20
                            else if density < 1 / 10 then score - 10
                            else score)
                   else score);
          formula_cells = dict_get (an_formula_cells a) 0;
          score = (if used_cells > 10
                   then (let formula_ratio = (of_nat formula_cells / of_nat used_cells :: rat)
                         in if formula_ratio > 8 / 10 then score - 10
                            else if 1 / 10 \<le> formula_ratio \<and> formula_ratio \<le> 5 / 10
                              then score + 5
                            else score)
                   else score)
      in max 0 (min 100 score))"

text \<open>\<^verbatim>\<open>d[k] = d.get(k, 0) + n\<close> on an insertion-ordered dictionary.\<close>

fun dict_add :: "string \<Rightarrow> nat \<Rightarrow> (string \<times> nat) list \<Rightarrow> (string \<times> nat) list" where
  "dict_add k n [] = [(k, n)]"
| "dict_add k n ((k', v) # r) = (if k = k' then (k', v + n) # r else (k', v) # dict_add k n r)"

definition tagged_functions :: "string list" where
  "tagged_functions =
     [''SUM'', ''AVERAGE'', ''COUNT'', ''IF'', ''VLOOKUP'', ''INDEX'', ''MATCH'',
      ''INDIRECT'', ''OFFSET'']"

record cell_scan =
  cs_formula_count :: nat
  cs_used_cell_count :: nat
  cs_data_validation_count :: nat
  cs_formula_types :: "(string \<times> nat) list"
  cs_formulas :: "string list"
  cs_errors :: "string list"

definition scan_cell :: "nat \<Rightarrow> nat \<Rightarrow> cell raises \<Rightarrow> cell_scan \<Rightarrow> cell_scan" where
  "scan_cell row_idx col_idx c s =
     (case c of
        Inl e \<Rightarrow>
          if length (cs_errors s) < 5
          then s\<lparr>cs_errors := cs_errors s @
                   [''Cell analysis error at '' @ show_nat row_idx @ '','' @ show_nat col_idx
                      @ '': '' @ e]\<rparr>
          else s
      | Inr cl \<Rightarrow>
          (case cell_value cl of
             None \<Rightarrow> s
           | Some cell_value_str \<Rightarrow>
               (let s = s\<lparr>cs_used_cell_count := cs_used_cell_count s + 1\<rparr>;
                    s = (if startswith cell_value_str ''=''
                         then (let s = s\<lparr>cs_formula_count := cs_formula_count s + 1,
                                         cs_formulas := cs_formulas s @ [take 100 cell_value_str]\<rparr>;
                                   formula_upper = upper cell_value_str
                               in case find (\<lambda>func. contains func formula_upper) tagged_functions of
                                    None \<Rightarrow> s
                                  | Some func \<Rightarrow>
                                      s\<lparr>cs_formula_types := dict_add func 1 (cs_formula_types s)\<rparr>)
                         else s)
                in if cell_has_data_validation cl \<or> cell_data_type cl = ''f''
                   then s\<lparr>cs_data_validation_count := cs_data_validation_count s + 1\<rparr>
                   else s)))"

fun scan_cells :: "nat \<Rightarrow> nat \<Rightarrow> cell raises list \<Rightarrow> cell_scan \<Rightarrow> cell_scan" where
  "scan_cells row_idx col_idx [] s = s"
| "scan_cells row_idx col_idx (c # cs) s =
     scan_cells row_idx (Suc col_idx) cs (scan_cell row_idx col_idx c s)"

text \<open>A row that cannot be produced ends the iteration (\<^verbatim>\<open>Cell iteration failed\<close>).\<close>

fun scan_rows :: "nat \<Rightarrow> (cell raises list) raises list \<Rightarrow> cell_scan \<Rightarrow> cell_scan" where
  "scan_rows row_idx [] s = s"
| "scan_rows row_idx (Inl e # rest) s =
     s\<lparr>cs_errors := cs_errors s @ [''Cell iteration failed: '' @ e]\<rparr>"
| "scan_rows row_idx (Inr row # rest) s =
     scan_rows (Suc row_idx) rest (scan_cells row_idx 1 row s)"

text \<open>The header loop over \<^verbatim>\<open>sheet[1]\<close>; a cell that raises ends header detection.\<close>

fun header_loop :: "cell raises list \<Rightarrow> string list \<Rightarrow> string list raises" where
  "header_loop [] first_row_values = Inr first_row_values"
| "header_loop (Inl e # cs) first_row_values = Inl e"
| "header_loop (Inr c # cs) first_row_values =
     (let first_row_values =
            (case cell_value c of
               None \<Rightarrow> first_row_values
             | Some v \<Rightarrow> first_row_values @ [take 50 v])
      in if length first_row_values \<ge> 20 then Inr first_row_values
         else header_loop cs first_row_values)"

definition first_row :: "sheet \<Rightarrow> cell raises list raises" where
  "first_row sh = (case sheet_rows sh of [] \<Rightarrow> Inr [] | r # _ \<Rightarrow> r)"

definition analyze_sheet :: "nat \<Rightarrow> string \<Rightarrow> sheet \<Rightarrow> sheet_analysis" where
  "analyze_sheet max_rows_to_analyze sheet_name sh =
     (let analysis = initial_analysis sheet_name
      in case sheet_dims sh of
           Inl e \<Rightarrow> analysis\<lparr>an_analysis_errors := Some [''Dimension analysis failed: '' @ e]\<rparr>
         | Inr (mr, mc) \<Rightarrow>
             (let max_row = dict_get mr 0;
                  max_col = dict_get mc 0;
                  analysis_max_row = min max_row max_rows_to_analyze;
                  errors = [];
                  (merged_cells, errors) =
                    (case sheet_merged_ranges sh of
                       Inr (Some n) \<Rightarrow> (n, errors)
                     | Inr None \<Rightarrow> (0, errors)
                     | Inl e \<Rightarrow> (0, errors @ [''Merged cells analysis failed: '' @ e]));
                  (sheet_protection, errors) =
                    (case sheet_protection sh of
                       Inr (Some b) \<Rightarrow> (b, errors)
                     | Inr None \<Rightarrow> (False, errors)
                     | Inl e \<Rightarrow> (False, errors @ [''Sheet protection analysis failed: '' @ e]));
                  scan = scan_rows 1 (take analysis_max_row (sheet_rows sh))
                           \<lparr>cs_formula_count = 0, cs_used_cell_count = 0,
                            cs_data_validation_count = 0, cs_formula_types = [],
                            cs_formulas = [], cs_errors = errors\<rparr>;
                  errors = cs_errors scan;
                  (has_tables, errors) =
                    (case sheet_tables sh of
                       Inr (Some n) \<Rightarrow> (n > 0, errors)
                     | Inr None \<Rightarrow> (False, errors)
                     | Inl e \<Rightarrow> (False, errors @ [''Table detection failed: '' @ e]));
                  (headers_detected, errors) =
                    (if max_row > 0
                     then (case first_row sh of
                             Inl e \<Rightarrow> ([], errors @ [''Header detection failed: '' @ e])
                           | Inr cells \<Rightarrow>
                               (case header_loop cells [] of
                                  Inl e \<Rightarrow> ([], errors @ [''Header detection failed: '' @ e])
                                | Inr hs \<Rightarrow> (hs, errors)))
                     else ([], errors));
                  analysis = analysis
                    \<lparr>an_dimensions := Some (max_row, max_col),
                     an_total_cells := Some (max_row * max_col),
                     an_merged_cells := Some merged_cells,
                     an_sheet_protection := Some sheet_protection,
                     an_formulas := Some (cs_formulas scan),
                     an_used_cells := Some (cs_used_cell_count scan),
                     an_formula_cells := Some (cs_formula_count scan),
                     an_formula_types := Some (cs_formula_types scan),
                     an_has_data_validation := Some (cs_data_validation_count scan > 0),
                     an_has_tables := Some has_tables,
                     an_headers_detected := Some headers_detected,
                     an_analysis_errors := Some errors\<rparr>
              in analysis\<lparr>an_data_consistency_score := Some (calculate_consistency_score analysis)\<rparr>))"

definition analyze_sheet_data :: "nat \<Rightarrow> workbook option \<Rightarrow> string \<Rightarrow> sheet_analysis" where
  "analyze_sheet_data max_rows_to_analyze wbo sheet_name =
     (case wbo of
        None \<Rightarrow> empty_analysis
      | Some wb \<Rightarrow>
          (case find (\<lambda>sh. sheet_title sh = sheet_name) (wb_worksheets wb) of
             None \<Rightarrow> empty_analysis
           | Some sh \<Rightarrow> analyze_sheet max_rows_to_analyze sheet_name sh))"

section \<open>analyze\_formulas\<close>

record formula_analysis =
  fa_total_formulas :: "nat option"
  fa_complex_formulas :: "nat option"
  fa_simple_formulas :: "nat option"
  fa_formula_complexity_ratio :: "rat option"
  fa_formula_types_summary :: "(string \<times> nat) list option"
  fa_most_complex_formulas :: "string list option"
  fa_automation_difficulty_score :: "int option"
  fa_sheets_analyzed :: "nat option"
  fa_analysis_errors :: "string list option"

definition empty_formulas :: formula_analysis where
  "empty_formulas =
     \<lparr>fa_total_formulas = None, fa_complex_formulas = None, fa_simple_formulas = None,
      fa_formula_complexity_ratio = None, fa_formula_types_summary = None,
      fa_most_complex_formulas = None, fa_automation_difficulty_score = None,
      fa_sheets_analyzed = None, fa_analysis_errors = None\<rparr>"

definition complex_formula_patterns :: "string list" where
  "complex_formula_patterns =
     [''INDIRECT'', ''OFFSET'', ''INDEX'', ''MATCH'', ''VLOOKUP'', ''HLOOKUP'',
      ''XLOOKUP'', ''SUMPRODUCT'', ''ARRAY'', ''MMULT'', ''TRANSPOSE'',
      ''PIVOT'', ''GETPIVOTDATA'', ''CUBE'', ''HYPERLINK'']"

definition simple_formula_patterns :: "string list" where
  "simple_formula_patterns =
     [''SUM'', ''AVERAGE'', ''COUNT'', ''MAX'', ''MIN'', ''IF'', ''CONCATENATE'',
      ''CONCAT'', ''LEFT'', ''RIGHT'', ''MID'', ''LEN'', ''UPPER'', ''LOWER'',
      ''ROUND'', ''ABS'', ''SQRT'']"

definition moderate_formula_patterns :: "string list" where
  "moderate_formula_patterns =
     [''SUMIF'', ''COUNTIF'', ''AVERAGEIF'', ''SUMIFS'', ''COUNTIFS'', ''AVERAGEIFS'',
      ''IFERROR'', ''IFNA'', ''CHOOSE'', ''SWITCH'', ''IFS'']"

text \<open>
  The loop over \<^verbatim>\<open>self.workbook.sheetnames\<close> with its counter and \<^verbatim>\<open>break\<close>.
  The state is \<^verbatim>\<open>(all_formulas, formula_types_summary, sheets_analyzed)\<close>.
\<close>

fun collect_formulas ::
  "nat \<Rightarrow> nat \<Rightarrow> workbook option \<Rightarrow> string list \<Rightarrow>
   string list \<times> (string \<times> nat) list \<times> nat \<Rightarrow> string list \<times> (string \<times> nat) list \<times> nat" where
  "collect_formulas max_rows max_sheets wbo [] acc = acc"
| "collect_formulas max_rows max_sheets wbo (sheet_name # rest)
     (all_formulas, formula_types_summary, sheets_analyzed) =
     (if sheets_analyzed \<ge> max_sheets
      then (all_formulas, formula_types_summary, sheets_analyzed)
      else (let sheet_analysis = analyze_sheet_data max_rows wbo sheet_name;
                sheet_formulas = dict_get (an_formulas sheet_analysis) [];
                sheet_formula_types = dict_get (an_formula_types sheet_analysis) []
            in collect_formulas max_rows max_sheets wbo rest
                 (all_formulas @ sheet_formulas,
                  fold (\<lambda>(func, count). dict_add func count) sheet_formula_types
                    formula_types_summary,
                  sheets_analyzed + 1)))"

text \<open>
  The classification loop; the state is \<^verbatim>\<open>(complex_functions, simple_functions)\<close>.
  The formulas are strings, so \<^verbatim>\<open>formula.upper()\<close> and the membership tests cannot
  raise and the \<^verbatim>\<open>except\<close> branch of the loop body has no counterpart.
\<close>

fun categorize :: "string list \<Rightarrow> string list \<times> string list \<Rightarrow> string list \<times> string list" where
  "categorize [] acc = acc"
| "categorize (formula # rest) (complex_functions, simple_functions) =
     (let formula_upper = upper formula
      in if contains_any complex_formula_patterns formula_upper
           then categorize rest (complex_functions @ [formula], simple_functions)
         else if contains_any moderate_formula_patterns formula_upper
           then categorize rest (complex_functions, simple_functions @ [formula])
         else if contains_any simple_formula_patterns formula_upper
           then categorize rest (complex_functions, simple_functions @ [formula])
         else categorize rest (complex_functions @ [formula], simple_functions))"

definition difficulty_score_of :: "nat \<Rightarrow> rat \<Rightarrow> int" where
  "difficulty_score_of total_formulas complexity_ratio =
     (let difficulty_score =
            (if total_formulas = 0 then 20
             else if complexity_ratio > 6 / 10 then 85
             else if complexity_ratio > 4 / 10 then 70
             else if complexity_ratio > 2 / 10 then 50
             else 25);
          difficulty_score =
            (if total_formulas > 1000 then difficulty_score + 10
             else if total_formulas > 100 then difficulty_score + 5
             else difficulty_score)
      in min 100 difficulty_score)"

definition analyze_formulas :: "nat \<Rightarrow> nat \<Rightarrow> workbook option \<Rightarrow> formula_analysis" where
  "analyze_formulas max_rows max_sheets wbo =
     (case wbo of
        None \<Rightarrow> empty_formulas
      | Some wb \<Rightarrow>
          (let (all_formulas, formula_types_summary, sheets_analyzed) =
                 collect_formulas max_rows max_sheets wbo (sheetnames wb) ([], [], 0);
               (complex_functions, simple_functions) = categorize all_formulas ([], []);
               total_formulas = length all_formulas;
               complex_count = length complex_functions;
               simple_count = length simple_functions;
               ratio = (of_nat complex_count / of_nat (max 1 total_formulas) :: rat)
           in \<lparr>fa_total_formulas = Some total_formulas,
               fa_complex_formulas = Some complex_count,
               fa_simple_formulas = Some simple_count,
               fa_formula_complexity_ratio = Some ratio,
               fa_formula_types_summary = Some formula_types_summary,
               fa_most_complex_formulas = Some (take 5 complex_functions),
               fa_automation_difficulty_score = Some (difficulty_score_of total_formulas ratio),
               fa_sheets_analyzed = Some sheets_analyzed,
               fa_analysis_errors = Some []\<rparr>))"

section \<open>detect\_automation\_patterns\<close>

record pattern_analysis =
  pa_repeated_structures :: "bool option"
  pa_template_sheets :: "string list option"
  pa_data_entry_sheets :: "string list option"
  pa_calculation_sheets :: "string list option"
  pa_reporting_sheets :: "string list option"
  pa_summary_sheets :: "string list option"
  pa_time_based_patterns :: "bool option"
  pa_consolidation_patterns :: "bool option"
  pa_pattern_score :: "int option"
  pa_detected_patterns :: "string list option"
  pa_business_process_indicators :: "string list option"
  pa_analysis_errors :: "string list option"

definition empty_patterns :: pattern_analysis where
  "empty_patterns =
     \<lparr>pa_repeated_structures = None, pa_template_sheets = None, pa_data_entry_sheets = None,
      pa_calculation_sheets = None, pa_reporting_sheets = None, pa_summary_sheets = None,
      pa_time_based_patterns = None, pa_consolidation_patterns = None,
      pa_pattern_score = None, pa_detected_patterns = None,
      pa_business_process_indicators = None, pa_analysis_errors = None\<rparr>"

definition time_patterns :: "(string \<times> string list) list" where
  "time_patterns =
     [(''months'', [''jan'', ''feb'', ''mar'', ''apr'', ''may'', ''jun'',
                    ''jul'', ''aug'', ''sep'', ''oct'', ''nov'', ''dec'',
                    ''january'', ''february'', ''march'', ''april'', ''june'',
                    ''july'', ''august'', ''september'', ''october'', ''november'',
                    ''december'']),
      (''quarters'', [''q1'', ''q2'', ''q3'', ''q4'', ''quarter'']),
      (''years'', [''2020'', ''2021'', ''2022'', ''2023'', ''2024'', ''2025'', ''2026'']),
      (''periods'', [''week'', ''daily'', ''monthly'', ''annual'', ''yearly''])]"

definition is_time_based :: "string \<Rightarrow> bool" where
  "is_time_based name =
     list_ex (\<lambda>(pattern_type, pattern_list). contains_any pattern_list (lower name)) time_patterns"

definition starts_with_digit :: "string \<Rightarrow> bool" where
  "starts_with_digit s = (case s of [] \<Rightarrow> False | d # _ \<Rightarrow> is_digit d)"

text \<open>
  \<^verbatim>\<open>re.sub(r'[0-9]+|_\d+|\s+\d+', '', name)\<close>: scanning from the left, a run of digits,
  an underscore followed by digits, or white space followed by digits is removed.
\<close>

function strip_numbers :: "string \<Rightarrow> string" where
  "strip_numbers [] = []"
| "strip_numbers (c # cs) =
     (if is_digit c then strip_numbers (dropWhile is_digit cs)
      else if c = CHR ''_'' \<and> starts_with_digit cs then strip_numbers (dropWhile is_digit cs)
      else if is_space c \<and> starts_with_digit (dropWhile is_space cs)
        then strip_numbers (dropWhile is_digit (dropWhile is_space cs))
      else c # strip_numbers cs)"
  by pat_completeness auto
termination
proof (relation "measure length")
  fix c :: char and cs :: string
  have "length (dropWhile is_digit (dropWhile is_space cs)) \<le> length (dropWhile is_space cs)"
    by (rule length_dropWhile_le)
  also have "\<dots> \<le> length cs"
    by (rule length_dropWhile_le)
  finally show "(dropWhile is_digit (dropWhile is_space cs), c # cs) \<in> measure length"
    by simp
qed (simp_all add: length_dropWhile_le less_Suc_eq_le)

definition month_abbreviations :: "string list" where
  "month_abbreviations =
     [''jan'', ''feb'', ''mar'', ''apr'', ''may'', ''jun'',
      ''jul'', ''aug'', ''sep'', ''oct'', ''nov'', ''dec'']"

text \<open>
  \<^verbatim>\<open>re.sub(r'(jan|feb|...|dec).*', '', s)\<close>: from the first month abbreviation on, the
  rest of the line is removed (the dot does not match a line feed).
\<close>

function strip_month_suffix :: "string \<Rightarrow> string" where
  "strip_month_suffix [] = []"
| "strip_month_suffix (c # cs) =
     (if list_ex (\<lambda>m. prefix m (c # cs)) month_abbreviations
      then strip_month_suffix (dropWhile (\<lambda>x. x \<noteq> CHR 0x0A) cs)
      else c # strip_month_suffix cs)"
  by pat_completeness auto
termination
  by (relation "measure length") (simp_all add: length_dropWhile_le less_Suc_eq_le)

definition base_name_of :: "string \<Rightarrow> string" where
  "base_name_of name = strip (strip_month_suffix (lower (strip (strip_numbers name))))"

definition pattern_groups_of :: "string list \<Rightarrow> (string \<times> nat) list" where
  "pattern_groups_of sheet_names =
     fold (\<lambda>name groups.
             (let base_name = base_name_of name
              in if length base_name \<ge> 2 then dict_add base_name 1 groups else groups))
          sheet_names []"

definition categorization_rules :: "(string \<times> string list) list" where
  "categorization_rules =
     [(''data_entry'', [''input'', ''entry'', ''data'', ''raw'', ''import'', ''source'', ''form'']),
      (''calculation'', [''calc'', ''calculation'', ''compute'', ''process'', ''analysis'', ''logic'']),
      (''reporting'', [''report'', ''summary'', ''dashboard'', ''output'', ''results'', ''final'']),
      (''template'', [''template'', ''master'', ''base'', ''model'', ''standard'']),
      (''summary'', [''summary'', ''total'', ''consolidated'', ''overview'', ''aggregate''])]"

text \<open>\<^verbatim>\<open>patterns[f'{category}_sheets'].append(sheet_name)\<close>.\<close>

definition append_sheet :: "string \<Rightarrow> string \<Rightarrow> pattern_analysis \<Rightarrow> pattern_analysis" where
  "append_sheet category sheet_name p =
     (if category = ''data_entry''
        then p\<lparr>pa_data_entry_sheets := Some (dict_get (pa_data_entry_sheets p) [] @ [sheet_name])\<rparr>
      else if category = ''calculation''
        then p\<lparr>pa_calculation_sheets := Some (dict_get (pa_calculation_sheets p) [] @ [sheet_name])\<rparr>
      else if category = ''reporting''
        then p\<lparr>pa_reporting_sheets := Some (dict_get (pa_reporting_sheets p) [] @ [sheet_name])\<rparr>
      else if category = ''template''
        then p\<lparr>pa_template_sheets := Some (dict_get (pa_template_sheets p) [] @ [sheet_name])\<rparr>
      else if category = ''summary''
        then p\<lparr>pa_summary_sheets := Some (dict_get (pa_summary_sheets p) [] @ [sheet_name])\<rparr>
      else p)"

definition categorize_sheet :: "string \<Rightarrow> pattern_analysis \<Rightarrow> pattern_analysis" where
  "categorize_sheet sheet_name p =
     (let name_lower = lower sheet_name
      in case find (\<lambda>(category, keywords). contains_any keywords name_lower)
                categorization_rules of
           Some (category, keywords) \<Rightarrow> append_sheet category sheet_name p
         | None \<Rightarrow>
             if contains_any [''sheet'', ''tab'', ''page''] name_lower
             then append_sheet ''data_entry'' sheet_name p
             else p)"

text \<open>
  Adding to the score together with the two texts that go with every detected pattern.
\<close>

definition add_pattern :: "int \<Rightarrow> string \<Rightarrow> string \<Rightarrow> pattern_analysis \<Rightarrow> pattern_analysis" where
  "add_pattern points detected indicator p =
     p\<lparr>pa_pattern_score := Some (dict_get (pa_pattern_score p) 0 + points),
       pa_detected_patterns := Some (dict_get (pa_detected_patterns p) [] @ [detected]),
       pa_business_process_indicators :=
         Some (dict_get (pa_business_process_indicators p) [] @ [indicator])\<rparr>"

definition initial_patterns :: pattern_analysis where
  "initial_patterns =
     \<lparr>pa_repeated_structures = Some False, pa_template_sheets = Some [],
      pa_data_entry_sheets = Some [], pa_calculation_sheets = Some [],
      pa_reporting_sheets = Some [], pa_summary_sheets = Some [],
      pa_time_based_patterns = Some False, pa_consolidation_patterns = Some False,
      pa_pattern_score = Some 0, pa_detected_patterns = Some [],
      pa_business_process_indicators = Some [], pa_analysis_errors = Some []\<rparr>"

text \<open>
  The checks of \<^verbatim>\<open>detect_automation_patterns\<close>, one function per block of the
  source, each taking the dictionary \<^verbatim>\<open>patterns\<close> and returning it updated.
\<close>

definition time_based_check :: "string list \<Rightarrow> pattern_analysis \<Rightarrow> pattern_analysis" where
  "time_based_check sheet_names patterns =
     (let time_based_sheets = filter is_time_based sheet_names
      in if length time_based_sheets \<ge> 2
         then add_pattern 30 ''Time-based sheet structure detected''
                ''Periodic reporting process'' (patterns\<lparr>pa_time_based_patterns := Some True\<rparr>)
         else patterns)"

definition repeated_structure_check :: "string list \<Rightarrow> pattern_analysis \<Rightarrow> pattern_analysis" where
  "repeated_structure_check sheet_names patterns =
     (if length sheet_names \<ge> 3
      then (let repeated_patterns = filter (\<lambda>(k, v). v \<ge> 2) (pattern_groups_of sheet_names)
            in if repeated_patterns \<noteq> []
               then add_pattern 25 ''Repeated sheet naming patterns detected''
                      ''Template-based workflow'' (patterns\<lparr>pa_repeated_structures := Some True\<rparr>)
               else patterns)
      else patterns)"

definition consolidation_check :: "pattern_analysis \<Rightarrow> pattern_analysis" where
  "consolidation_check patterns =
     (let data_sources = length (dict_get (pa_data_entry_sheets patterns) []);
          reporting_outputs = length (dict_get (pa_reporting_sheets patterns) [])
                                + length (dict_get (pa_summary_sheets patterns) [])
      in if data_sources \<ge> 2 \<and> reporting_outputs \<ge> 1
         then add_pattern 20 ''Data consolidation workflow detected''
                ''Multi-source data aggregation''
                (patterns\<lparr>pa_consolidation_patterns := Some True\<rparr>)
         else patterns)"

definition template_check :: "string list \<Rightarrow> pattern_analysis \<Rightarrow> pattern_analysis" where
  "template_check sheet_names patterns =
     (if dict_get (pa_template_sheets patterns) [] \<noteq> []
         \<and> int (length sheet_names)
             - int (length (dict_get (pa_template_sheets patterns) [])) \<ge> 2
      then add_pattern 15 ''Master template with variations''
             ''Standardized reporting process'' patterns
      else patterns)"

definition workflow_check :: "pattern_analysis \<Rightarrow> pattern_analysis" where
  "workflow_check patterns =
     (if dict_get (pa_data_entry_sheets patterns) [] \<noteq> []
         \<and> dict_get (pa_calculation_sheets patterns) [] \<noteq> []
         \<and> dict_get (pa_reporting_sheets patterns) [] \<noteq> []
      then add_pattern 25 ''Complete business process workflow''
             ''End-to-end data processing pipeline'' patterns
      else patterns)"

definition complexity_bonus :: "pattern_analysis \<Rightarrow> pattern_analysis" where
  "complexity_bonus patterns =
     (if length (dict_get (pa_detected_patterns patterns) []) \<ge> 3
      then patterns
             \<lparr>pa_pattern_score := Some (dict_get (pa_pattern_score patterns) 0 + 10),
              pa_business_process_indicators :=
                Some (dict_get (pa_business_process_indicators patterns) []
                        @ [''Multi-pattern business process''])\<rparr>
      else patterns)"

definition detect_patterns :: "string list \<Rightarrow> pattern_analysis" where
  "detect_patterns sheet_names =
     (let patterns = initial_patterns;
          patterns = time_based_check sheet_names patterns;
          patterns = repeated_structure_check sheet_names patterns;
          patterns = fold categorize_sheet sheet_names patterns;
          patterns = consolidation_check patterns;
          patterns = template_check sheet_names patterns;
          patterns = workflow_check patterns
      in complexity_bonus patterns)"

definition detect_automation_patterns :: "workbook option \<Rightarrow> pattern_analysis" where
  "detect_automation_patterns wbo =
     (case wbo of
        None \<Rightarrow> empty_patterns
      | Some wb \<Rightarrow> detect_patterns (sheetnames wb))"

section \<open>The checker object\<close>

text \<open>
  \<^verbatim>\<open>self.analysis_results\<close> is a dictionary with up to four keys; it lives on the checker
  and survives from one report to the next.
\<close>

record analysis_results =
  ar_structure :: "structure_analysis option"
  ar_formulas :: "formula_analysis option"
  ar_patterns :: "pattern_analysis option"
  ar_red_flags :: "string list option"

record checker =
  ck_workbook :: "workbook option"
  ck_file_path :: "string option"
  ck_analysis_results :: analysis_results
  ck_max_rows_to_analyze :: nat
  ck_max_sheets_to_analyze :: nat

text \<open>A string is truthy when it is not empty; \<^verbatim>\<open>self.file_path\<close> may also be \<^verbatim>\<open>None\<close>.\<close>

definition path_given :: "string option \<Rightarrow> bool" where
  "path_given file_path = (file_path \<noteq> None \<and> file_path \<noteq> Some [])"

definition apostrophe :: string where
  "apostrophe = [CHR 0x27]"

section \<open>identify\_red\_flags\<close>

record flag_scan =
  fs_red_flags :: "string list"
  fs_total_merged_cells :: nat
  fs_sheets_with_protection :: nat
  fs_sheets_with_many_formulas :: nat

definition scan_sheet_flags :: "checker \<Rightarrow> string \<Rightarrow> flag_scan \<Rightarrow> flag_scan" where
  "scan_sheet_flags ck sheet_name st =
     (let sheet_analysis = analyze_sheet_data (ck_max_rows_to_analyze ck) (ck_workbook ck) sheet_name;
          merged_count = dict_get (an_merged_cells sheet_analysis) 0;
          st = st\<lparr>fs_total_merged_cells := fs_total_merged_cells st + merged_count\<rparr>;
          st = (if dict_get (an_sheet_protection sheet_analysis) False
                then st\<lparr>fs_sheets_with_protection := fs_sheets_with_protection st + 1\<rparr>
                else st);
          used_cells = dict_get (an_used_cells sheet_analysis) 1;
          formula_cells = dict_get (an_formula_cells sheet_analysis) 0;
          st = (if used_cells > 100 \<and> (of_nat formula_cells / of_nat used_cells :: rat) > 7 / 10
                then st\<lparr>fs_sheets_with_many_formulas := fs_sheets_with_many_formulas st + 1\<rparr>
                else st);
          st = (if merged_count > 50
                then st\<lparr>fs_red_flags := fs_red_flags st @
                        [''Sheet '' @ apostrophe @ sheet_name @ apostrophe
                           @ '' has excessive merged cells ('' @ show_nat merged_count @ '')'']\<rparr>
                else st);
          total_cells = dict_get (an_total_cells sheet_analysis) 1
      in if used_cells > 0 \<and> total_cells > 1000
            \<and> (of_nat used_cells / of_nat total_cells :: rat) < 5 / 100
         then st\<lparr>fs_red_flags := fs_red_flags st @
                 [''Sheet '' @ apostrophe @ sheet_name @ apostrophe
                    @ '' has very sparse data (low density)'']\<rparr>
         else st)"

definition macro_indicators :: "string list" where
  "macro_indicators = [''CALL'', ''RUN'', ''PERSONAL'', ''APPLICATION'']"

definition identify_red_flags :: "checker \<Rightarrow> string list" where
  "identify_red_flags ck =
     (case ck_workbook ck of
        None \<Rightarrow> [''No workbook loaded'']
      | Some wb \<Rightarrow>
          (let red_flags = [];
               structure_analysis = dict_get (ar_structure (ck_analysis_results ck)) empty_structure;
               formula_analysis = dict_get (ar_formulas (ck_analysis_results ck)) empty_formulas;
               file_size_mb = dict_get (sa_file_size_mb structure_analysis) 0;
               red_flags =
                 (if file_size_mb > 100
                  then red_flags @ [''Very large file size ('' @ show_1f file_size_mb
                                      @ ''MB) - may cause performance issues'']
                  else if file_size_mb > 50
                  then red_flags @ [''Large file size ('' @ show_1f file_size_mb
                                      @ ''MB) - requires optimization considerations'']
                  else red_flags);
               total_sheets = dict_get (sa_total_sheets structure_analysis) 0;
               red_flags =
                 (if total_sheets > 30
                  then red_flags @ [''Excessive number of sheets ('' @ show_nat total_sheets
                                      @ '') - increases automation complexity'']
                  else if total_sheets > 20
                  then red_flags @ [''High number of sheets ('' @ show_nat total_sheets
                                      @ '') - may require phased automation approach'']
                  else red_flags);
               complex_formula_ratio = dict_get (fa_formula_complexity_ratio formula_analysis) 0;
               total_formulas = dict_get (fa_total_formulas formula_analysis) 0;
               red_flags =
                 (if complex_formula_ratio > 7 / 10
                  then red_flags @ [''Very high complex formula ratio (>70%) - significant logic replication required'']
                  else if complex_formula_ratio > 5 / 10
                  then red_flags @ [''High complex formula ratio (>50%) - moderate logic replication required'']
                  else red_flags);
               red_flags =
                 (if total_formulas > 2000
                  then red_flags @ [''Very high formula count ('' @ show_nat total_formulas
                                      @ '') - extensive logic to replicate'']
                  else if total_formulas > 1000
                  then red_flags @ [''High formula count ('' @ show_nat total_formulas
                                      @ '') - substantial automation effort required'']
                  else red_flags);
               st = fold (scan_sheet_flags ck) (take (ck_max_sheets_to_analyze ck) (sheetnames wb))
                      \<lparr>fs_red_flags = red_flags, fs_total_merged_cells = 0,
                       fs_sheets_with_protection = 0, fs_sheets_with_many_formulas = 0\<rparr>;
               red_flags = fs_red_flags st;
               total_merged_cells = fs_total_merged_cells st;
               sheets_with_protection = fs_sheets_with_protection st;
               red_flags =
                 (if total_merged_cells > 20
                  then red_flags @ [''High total merged cells across file (''
                                      @ show_nat total_merged_cells @ '') - major automation blocker'']
                  else if total_merged_cells > 10
                  then red_flags @ [''Moderate merged cell usage (''
                                      @ show_nat total_merged_cells @ '') - complicates automation'']
                  else red_flags);
               red_flags =
                 (if sheets_with_protection > 0
                  then red_flags @ [''Protected sheets detected (''
                                      @ show_nat sheets_with_protection
                                      @ '') - may restrict automation access'']
                  else red_flags);
               red_flags =
                 (if (of_nat (fs_sheets_with_many_formulas st) :: rat) > of_nat total_sheets * (5 / 10)
                  then red_flags @ [''Many sheets are formula-heavy - complex logic replication required'']
                  else red_flags);
               red_flags =
                 (if dict_get (sa_has_hidden_sheets structure_analysis) False
                  then red_flags @ [''Hidden sheets detected - may contain critical logic or data'']
                  else red_flags);
               red_flags =
                 (if dict_get (sa_has_very_hidden_sheets structure_analysis) False
                  then red_flags @ [''Very hidden sheets detected - likely contains sensitive or complex logic'']
                  else red_flags);
               formula_types = dict_get (fa_formula_types_summary formula_analysis) [];
               has_macros =
                 ((path_given (ck_file_path ck)
                     \<and> endswith (lower (dict_get (ck_file_path ck) [])) ''.xlsm'')
                  \<or> wb_vba_archive wb
                  \<or> list_ex (\<lambda>indicator. List.member (map fst formula_types) indicator)
                       macro_indicators);
               red_flags =
                 (if has_macros
                  then red_flags @ [''VBA macros detected - requires specialized automation approach'']
                  else red_flags);
               consistency_scores =
                 map (\<lambda>sheet_name.
                        dict_get (an_data_consistency_score
                                    (analyze_sheet_data (ck_max_rows_to_analyze ck) (ck_workbook ck)
                                       sheet_name)) 50)
                     (take 10 (sheetnames wb))
           in if consistency_scores \<noteq> []
              then (let avg_consistency =
                          (of_int (sum_list consistency_scores) / of_nat (length consistency_scores) :: rat)
                    in if avg_consistency < 40
                       then red_flags @ [''Low data consistency across sheets - requires cleanup before automation'']
                       else if avg_consistency < 60
                       then red_flags @ [''Moderate data consistency issues - some cleanup recommended'']
                       else red_flags)
              else red_flags))"

section \<open>identify\_opportunities\<close>

definition identify_opportunities :: "checker \<Rightarrow> string list" where
  "identify_opportunities ck =
     (let opportunities = [];
          structure_analysis = dict_get (ar_structure (ck_analysis_results ck)) empty_structure;
          formula_analysis = dict_get (ar_formulas (ck_analysis_results ck)) empty_formulas;
          pattern_analysis = dict_get (ar_patterns (ck_analysis_results ck)) empty_patterns;
          opportunities =
            (if dict_get (pa_time_based_patterns pattern_analysis) False
             then opportunities @ [''Monthly/quarterly reporting can be fully automated with templates'']
             else opportunities);
          opportunities =
            (if dict_get (pa_consolidation_patterns pattern_analysis) False
             then opportunities @ [''Data consolidation process has high ROI automation potential'']
             else opportunities);
          opportunities =
            (if dict_get (pa_repeated_structures pattern_analysis) False
             then opportunities @ [''Repeated sheet structures can use template-based automation'']
             else opportunities);
          opportunities =
            (if dict_get (sa_named_ranges structure_analysis) 0 > 0
             then opportunities @ [''Named ranges indicate well-structured data - easier automation implementation'']
             else opportunities);
          opportunities =
            (if dict_get (sa_total_sheets structure_analysis) 0 \<le> 10
             then opportunities @ [''Manageable number of sheets - straightforward automation scope'']
             else opportunities);
          simple_formulas = dict_get (fa_simple_formulas formula_analysis) 0;
          total_formulas = dict_get (fa_total_formulas formula_analysis) 1;
          opportunities =
            (if (of_nat simple_formulas :: rat) > of_nat total_formulas * (7 / 10)
             then opportunities @ [''Majority of formulas are simple - easy to replicate in automation'']
             else opportunities);
          opportunities =
            (if total_formulas < 100
             then opportunities @ [''Low formula complexity - minimal logic replication required'']
             else opportunities);
          business_indicators = dict_get (pa_business_process_indicators pattern_analysis) [];
          opportunities =
            (if List.member business_indicators ''End-to-end data processing pipeline''
             then opportunities @ [''Complete workflow automation possible - high impact potential'']
             else opportunities);
          opportunities =
            (if List.member business_indicators ''Multi-source data aggregation''
             then opportunities @ [''Data integration automation can eliminate manual consolidation'']
             else opportunities);
          file_size = dict_get (sa_file_size_mb structure_analysis) 0;
          opportunities =
            (if file_size < 10
             then opportunities @ [''Small file size enables cloud-based automation solutions'']
             else opportunities);
          opportunities =
            (if dict_get (pa_template_sheets pattern_analysis) [] \<noteq> []
             then opportunities @ [''Master templates detected - can standardize and automate variations'']
             else opportunities);
          opportunities =
            (if length (dict_get (pa_data_entry_sheets pattern_analysis) []) > 0
             then opportunities @ [''Data entry processes can be automated with forms or APIs'']
             else opportunities);
          opportunities =
            (if length (dict_get (pa_reporting_sheets pattern_analysis) []) > 0
             then opportunities @ [''Report generation can be automated with scheduled processes'']
             else opportunities)
      in if length opportunities \<ge> 5
         then opportunities @ [''Multiple automation opportunities identified - high ROI potential'']
         else if length opportunities \<ge> 3
         then opportunities @ [''Several automation opportunities - good ROI potential'']
         else opportunities)"

section \<open>recommend\_automation\_tools\<close>

text \<open>
  The two markers in front of the recommendation texts are characters outside ASCII;
  they are written as their UTF-8 bytes. The texts are only compared with each other.
\<close>

definition check_mark :: string where
  "check_mark = [CHR 0xE2, CHR 0x9C, CHR 0x85]"

definition warning_sign :: string where
  "warning_sign = [CHR 0xE2, CHR 0x9A, CHR 0xA0, CHR 0xEF, CHR 0xB8, CHR 0x8F]"

record analysis_summary =
  as_overall_score :: "rat option"
  as_formula_complexity_ratio :: "rat option"
  as_file_size_mb :: "rat option"
  as_has_automation_patterns :: "bool option"
  as_red_flags :: "string list option"
  as_total_formulas :: "nat option"

text \<open>
  Each rule of \<^verbatim>\<open>recommend_automation_tools\<close> extends the list
  \<^verbatim>\<open>recommendations\<close> by the texts it emits; the rules follow in the order of the source.
\<close>

definition python_rule :: "rat \<Rightarrow> rat \<Rightarrow> bool \<Rightarrow> string list" where
  "python_rule overall_score formula_complexity has_macros =
     (if overall_score \<ge> 70 \<and> formula_complexity < 4 / 10 \<and> \<not> has_macros
      then [check_mark @ '' Python + pandas + openpyxl - Ideal for data processing, calculations, and report generation'',
            check_mark @ '' Python + xlwings - Excel integration with Python logic, maintains Excel interface'']
      else if overall_score \<ge> 50 \<and> formula_complexity < 6 / 10
      then [warning_sign @ '' Python + pandas - Possible with formula logic replication effort'']
      else [])"

definition power_platform_rule :: "rat \<Rightarrow> rat \<Rightarrow> bool \<Rightarrow> string list" where
  "power_platform_rule overall_score file_size has_macros =
     (if overall_score \<ge> 60 \<and> file_size < 30 \<and> \<not> has_macros
      then [check_mark @ '' Microsoft Power Automate - Excellent for workflow automation and Office 365 integration'',
            check_mark @ '' Power BI + Power Query - Perfect for reporting automation and data transformation'']
      else if overall_score \<ge> 40
      then [warning_sign @ '' Power Platform - Possible with data restructuring'']
      else [])"

definition vba_rule :: "rat \<Rightarrow> rat \<Rightarrow> nat \<Rightarrow> bool \<Rightarrow> string list" where
  "vba_rule overall_score formula_complexity total_formulas has_macros =
     (if has_macros \<or> formula_complexity > 5 / 10 \<or> total_formulas > 500
      then [check_mark @ '' Enhanced VBA/Excel Macros - Build upon existing logic, add automation triggers'',
            check_mark @ '' Excel + VBA + Python integration - Hybrid approach leveraging both platforms'']
      else if overall_score \<ge> 60
      then [check_mark @ '' Excel VBA - Native Excel automation for formula-heavy processes'']
      else [])"

definition rpa_rule :: "rat \<Rightarrow> nat \<Rightarrow> string list" where
  "rpa_rule overall_score flag_count =
     (if overall_score < 50 \<or> flag_count > 3
      then [warning_sign @ '' RPA Tools (UiPath, Automation Anywhere) - For processes that can''
              @ apostrophe @ ''t be restructured'',
            warning_sign @ '' Desktop automation - When existing file structure must be preserved'']
      else [])"

definition cloud_rule :: "rat \<Rightarrow> rat \<Rightarrow> bool \<Rightarrow> string list" where
  "cloud_rule overall_score file_size has_patterns =
     (if has_patterns \<and> file_size < 20 \<and> overall_score \<ge> 60
      then [check_mark @ '' Google Sheets + Apps Script - Cloud-based collaborative automation'',
            check_mark @ '' Office 365 + SharePoint + Power Automate - Enterprise cloud automation suite'']
      else [])"

definition pattern_rules :: "pattern_analysis \<Rightarrow> string list" where
  "pattern_rules pattern_analysis =
     (if dict_get (pa_time_based_patterns pattern_analysis) False
      then [check_mark @ '' Scheduled automation scripts - Perfect for periodic reporting'']
      else [])
     @ (if dict_get (pa_consolidation_patterns pattern_analysis) False
        then [check_mark @ '' ETL tools (SSIS, Alteryx) - Specialized for data consolidation workflows'']
        else [])"

definition no_code_rule :: "rat \<Rightarrow> rat \<Rightarrow> string list" where
  "no_code_rule overall_score formula_complexity =
     (if overall_score \<ge> 50 \<and> formula_complexity < 3 / 10
      then [check_mark @ '' No-code platforms (Zapier, Microsoft Flow) - Quick implementation option'']
      else [])"

text \<open>The list \<^verbatim>\<open>recommendations\<close> before duplicates are removed.\<close>

definition recommendation_rules :: "analysis_results \<Rightarrow> analysis_summary \<Rightarrow> string list" where
  "recommendation_rules results analysis_summary =
     (let overall_score = dict_get (as_overall_score analysis_summary) 0;
          formula_complexity = dict_get (as_formula_complexity_ratio analysis_summary) 0;
          file_size = dict_get (as_file_size_mb analysis_summary) 0;
          has_patterns = dict_get (as_has_automation_patterns analysis_summary) False;
          total_formulas = dict_get (as_total_formulas analysis_summary) 0;
          has_macros =
            list_ex (\<lambda>flag. contains ''macro'' (lower flag) \<or> contains ''vba'' (lower flag))
              (dict_get (as_red_flags analysis_summary) [])
      in python_rule overall_score formula_complexity has_macros
         @ power_platform_rule overall_score file_size has_macros
         @ vba_rule overall_score formula_complexity total_formulas has_macros
         @ rpa_rule overall_score (length (dict_get (as_red_flags analysis_summary) []))
         @ cloud_rule overall_score file_size has_patterns
         @ pattern_rules (dict_get (ar_patterns results) empty_patterns)
         @ no_code_rule overall_score formula_complexity)"

text \<open>
  The loop that removes duplicates: \<open>seen\<close> is the set of texts already taken, the result
  the list \<^verbatim>\<open>unique_recommendations\<close> built from the remaining input.
\<close>

fun remove_duplicates :: "string set \<Rightarrow> string list \<Rightarrow> string list" where
  "remove_duplicates seen [] = []"
| "remove_duplicates seen (rec # recs) =
     (if rec \<notin> seen then rec # remove_duplicates (insert rec seen) recs
      else remove_duplicates seen recs)"

definition recommend_automation_tools :: "analysis_results \<Rightarrow> analysis_summary \<Rightarrow> string list" where
  "recommend_automation_tools results analysis_summary =
     take 8 (remove_duplicates {} (recommendation_rules results analysis_summary))"

section \<open>generate\_comprehensive\_report\<close>

record scores =
  sc_structure_score :: rat
  sc_formula_difficulty_score :: rat
  sc_pattern_score :: rat
  sc_overall_score :: rat

record detailed =
  da_file_info :: "string \<times> string \<times> nat \<times> rat \<times> nat \<times> bool"
  da_formula_analysis :: "nat \<times> nat \<times> nat \<times> rat \<times> (string \<times> nat) list \<times> int"
  da_pattern_analysis :: "bool \<times> bool \<times> bool \<times> string list \<times> string list"
  da_scores :: scores
  da_quality_metrics :: "nat \<times> nat \<times> rat"

datatype error = ValueError string

definition basename :: "string \<Rightarrow> string" where
  "basename path = rev (takeWhile (\<lambda>c. c \<noteq> CHR ''/'') (rev path))"

definition calculate_analysis_completeness :: "analysis_results \<Rightarrow> rat" where
  "calculate_analysis_completeness results =
     (let total_components = 4;
          completed_components = (0 :: nat);
          completed_components =
            (if ar_structure results \<noteq> None \<and> ar_structure results \<noteq> Some empty_structure
             then completed_components + 1 else completed_components);
          completed_components =
            (if ar_formulas results \<noteq> None \<and> ar_formulas results \<noteq> Some empty_formulas
             then completed_components + 1 else completed_components);
          completed_components =
            (if ar_patterns results \<noteq> None \<and> ar_patterns results \<noteq> Some empty_patterns
             then completed_components + 1 else completed_components);
          completed_components =
            (if ar_red_flags results \<noteq> None
             then completed_components + 1 else completed_components)
      in (of_nat completed_components / total_components) * 100)"

text \<open>The weighted score with the red-flag penalty, before it is rounded.\<close>

definition overall_score_of :: "int \<Rightarrow> int \<Rightarrow> int \<Rightarrow> nat \<Rightarrow> rat" where
  "overall_score_of structure_score automation_difficulty_score pattern_score flag_count =
     (let formula_difficulty = 100 - automation_difficulty_score;
          overall_score = of_int structure_score * (3 / 10)
                            + of_int formula_difficulty * (4 / 10)
                            + of_int pattern_score * (3 / 10);
          red_flag_penalty = min (of_nat flag_count * 8) 40
      in max 0 (overall_score - red_flag_penalty))"

definition feasibility_of :: "rat \<Rightarrow> string \<times> string" where
  "feasibility_of overall_score =
     (if overall_score \<ge> 80
        then (''HIGH - Excellent automation candidate'',
              ''2-4 weeks development + 1 week testing'')
      else if overall_score \<ge> 65
        then (''MEDIUM-HIGH - Very good automation potential'',
              ''1-2 months development + 2 weeks testing'')
      else if overall_score \<ge> 50
        then (''MEDIUM - Good automation potential with preparation'',
              ''2-3 months development + 3 weeks testing'')
      else if overall_score \<ge> 35
        then (''LOW-MEDIUM - Possible but requires significant restructuring'',
              ''3-4 months development + 1 month testing'')
      else (''LOW - Not recommended for automation in current state'',
            ''6+ months or complete redesign recommended''))"

text \<open>
  \<^verbatim>\<open>AutomationAssessment\<close>. The field \<open>detailed_analysis\<close> is \<open>Inl msg\<close> for the
  dictionary \<^verbatim>\<open>{'error': msg}\<close>.
\<close>

record assessment =
  overall_score :: rat
  feasibility_level :: string
  automation_recommendations :: "string list"
  detailed_analysis :: "string + detailed"
  red_flags :: "string list"
  opportunities :: "string list"
  estimated_effort :: string
  recommended_tools :: "string list"
  analysis_timestamp :: string
  file_info :: "string \<times> rat \<times> nat"

text \<open>
  \<^verbatim>\<open>generate_comprehensive_report\<close>. \<open>now\<close> is the formatted reading of the clock and
  \<open>getsize\<close> what \<^verbatim>\<open>os.path.getsize\<close> answers for the file. Each stage stores its result
  on the checker before the next one reads it. The stage functions of this model return
  a value for every argument, so the \<^verbatim>\<open>except\<close> branches around their calls and the
  outer fallback assessment are never taken; the only exception is the
  \<^verbatim>\<open>ValueError\<close> raised before the outer \<^verbatim>\<open>try\<close>.
\<close>

definition generate_comprehensive_report ::
  "string \<Rightarrow> nat raises \<Rightarrow> checker \<Rightarrow> error + assessment \<times> checker" where
  "generate_comprehensive_report now getsize ck =
     (if ck_workbook ck = None
      then Inl (ValueError ''No Excel file loaded. Please load a file first using load_excel_file()'')
      else
        (let structure_analysis = analyze_file_structure (ck_workbook ck) (ck_file_path ck) getsize;
             ck = ck\<lparr>ck_analysis_results :=
                       (ck_analysis_results ck)\<lparr>ar_structure := Some structure_analysis\<rparr>\<rparr>;
             formula_analysis = analyze_formulas (ck_max_rows_to_analyze ck)
                                  (ck_max_sheets_to_analyze ck) (ck_workbook ck);
             ck = ck\<lparr>ck_analysis_results :=
                       (ck_analysis_results ck)\<lparr>ar_formulas := Some formula_analysis\<rparr>\<rparr>;
             pattern_analysis = detect_automation_patterns (ck_workbook ck);
             ck = ck\<lparr>ck_analysis_results :=
                       (ck_analysis_results ck)\<lparr>ar_patterns := Some pattern_analysis\<rparr>\<rparr>;
             red_flags = identify_red_flags ck;
             ck = ck\<lparr>ck_analysis_results :=
                       (ck_analysis_results ck)\<lparr>ar_red_flags := Some red_flags\<rparr>\<rparr>;
             opportunities = identify_opportunities ck;
             structure_score = dict_get (sa_structure_score structure_analysis) 0;
             pattern_score = dict_get (pa_pattern_score pattern_analysis) 0;
             overall_score =
               overall_score_of structure_score
                 (dict_get (fa_automation_difficulty_score formula_analysis) 50)
                 pattern_score (length red_flags);
             (feasibility_level, estimated_effort) = feasibility_of overall_score;
             analysis_summary =
               \<lparr>as_overall_score = Some overall_score,
                as_formula_complexity_ratio =
                  Some (dict_get (fa_formula_complexity_ratio formula_analysis) 0),
                as_file_size_mb = Some (dict_get (sa_file_size_mb structure_analysis) 0),
                as_has_automation_patterns = Some (dict_get (pa_pattern_score pattern_analysis) 0 > 20),
                as_red_flags = Some red_flags,
                as_total_formulas = Some (dict_get (fa_total_formulas formula_analysis) 0)\<rparr>;
             recommended_tools = recommend_automation_tools (ck_analysis_results ck) analysis_summary;
             file_name = (if path_given (ck_file_path ck)
                          then basename (dict_get (ck_file_path ck) []) else ''Unknown'');
             detailed_analysis =
               \<lparr>da_file_info =
                  (file_name,
                   (if path_given (ck_file_path ck) then dict_get (ck_file_path ck) [] else ''Unknown''),
                   dict_get (sa_total_sheets structure_analysis) 0,
                   py_round (dict_get (sa_file_size_mb structure_analysis) 0) 2,
                   dict_get (sa_named_ranges structure_analysis) 0,
                   dict_get (sa_has_hidden_sheets structure_analysis) False),
                da_formula_analysis =
                  (dict_get (fa_total_formulas formula_analysis) 0,
                   dict_get (fa_complex_formulas formula_analysis) 0,
                   dict_get (fa_simple_formulas formula_analysis) 0,
                   py_round (dict_get (fa_formula_complexity_ratio formula_analysis) 0) 3,
                   dict_get (fa_formula_types_summary formula_analysis) [],
                   dict_get (fa_automation_difficulty_score formula_analysis) 0),
                da_pattern_analysis =
                  (dict_get (pa_time_based_patterns pattern_analysis) False,
                   dict_get (pa_repeated_structures pattern_analysis) False,
                   dict_get (pa_consolidation_patterns pattern_analysis) False,
                   dict_get (pa_detected_patterns pattern_analysis) [],
                   dict_get (pa_business_process_indicators pattern_analysis) []),
                da_scores =
                  \<lparr>sc_structure_score = py_round (of_int structure_score) 1,
                   sc_formula_difficulty_score =
                     py_round (of_int (100 - dict_get (fa_automation_difficulty_score formula_analysis) 50)) 1,
                   sc_pattern_score = py_round (of_int pattern_score) 1,
                   sc_overall_score = py_round overall_score 1\<rparr>,
                da_quality_metrics =
                  (length red_flags, length opportunities,
                   calculate_analysis_completeness (ck_analysis_results ck))\<rparr>
         in Inr (\<lparr>overall_score = py_round overall_score 1,
                   feasibility_level = feasibility_level,
                   automation_recommendations = recommended_tools,
                   detailed_analysis = Inr detailed_analysis,
                   red_flags = red_flags,
                   opportunities = opportunities,
                   estimated_effort = estimated_effort,
                   recommended_tools = recommended_tools,
                   analysis_timestamp = now,
                   file_info = (file_name, dict_get (sa_file_size_mb structure_analysis) 0,
                                dict_get (sa_total_sheets structure_analysis) 0)\<rparr>,
                 ck)))"

section \<open>The wording of the specification\<close>

text \<open>
  The structure score as the specification words it: base 70, a sheet-count band, a
  named-range band, the two hidden-sheet penalties, the size band, clamped to 0..100.
\<close>

definition spec_structure_score :: "nat \<Rightarrow> nat \<Rightarrow> bool \<Rightarrow> bool \<Rightarrow> rat \<Rightarrow> int" where
  "spec_structure_score sheets named_ranges any_hidden any_very_hidden size_mb =
     max 0 (min 100
       (70
        + (if 1 \<le> sheets \<and> sheets \<le> 10 then 15
           else if 11 \<le> sheets \<and> sheets \<le> 20 then 5
           else if sheets > 30 then - 20 else 0)
        + (if 1 \<le> named_ranges \<and> named_ranges \<le> 10 then 15
           else if named_ranges > 10 then 5 else 0)
        - (if any_hidden then 5 else 0)
        - (if any_very_hidden then 10 else 0)
        + (if size_mb < 5 then 5 else if size_mb > 50 then - 15 else 0)))"

text \<open>
  A formula is tallied as complex when it matches the complex vocabulary, or when it
  matches neither the moderate nor the simple one.
\<close>

definition lands_in_complex :: "string \<Rightarrow> bool" where
  "lands_in_complex formula =
     (contains_any complex_formula_patterns (upper formula)
      \<or> (\<not> contains_any moderate_formula_patterns (upper formula)
          \<and> \<not> contains_any simple_formula_patterns (upper formula)))"

text \<open>The tier names of the specification, by the inclusive lower bounds.\<close>

definition spec_tier :: "rat \<Rightarrow> string" where
  "spec_tier score =
     (if score \<ge> 80 then ''HIGH''
      else if score \<ge> 65 then ''MEDIUM-HIGH''
      else if score \<ge> 50 then ''MEDIUM''
      else if score \<ge> 35 then ''LOW-MEDIUM''
      else ''LOW'')"

section \<open>Example workbooks\<close>

text \<open>The checker as \<^verbatim>\<open>__init__\<close> leaves it, and after a workbook has been loaded.\<close>

definition new_checker :: checker where
  "new_checker =
     \<lparr>ck_workbook = None, ck_file_path = None,
      ck_analysis_results =
        \<lparr>ar_structure = None, ar_formulas = None, ar_patterns = None, ar_red_flags = None\<rparr>,
      ck_max_rows_to_analyze = 10000, ck_max_sheets_to_analyze = 50\<rparr>"

definition loaded_checker :: "workbook \<Rightarrow> string \<Rightarrow> checker" where
  "loaded_checker wb path = new_checker\<lparr>ck_workbook := Some wb, ck_file_path := Some path\<rparr>"

text \<open>A visible sheet of one row and one column whose only cell is empty.\<close>

definition blank_sheet :: "string \<Rightarrow> sheet" where
  "blank_sheet name =
     \<lparr>sheet_title = name, sheet_state = Inr (Some ''visible''),
      sheet_dims = Inr (Some 1, Some 1), sheet_merged_ranges = Inr (Some 0),
      sheet_protection = Inr (Some False),
      sheet_rows = [Inr [Inr \<lparr>cell_value = None, cell_has_data_validation = False,
                               cell_data_type = ''n''\<rparr>]],
      sheet_tables = Inr (Some 0)\<rparr>"

text \<open>A sheet on which every guarded read raises.\<close>

definition broken_sheet :: "string \<Rightarrow> sheet" where
  "broken_sheet name =
     \<lparr>sheet_title = name, sheet_state = Inl ''state unreadable'',
      sheet_dims = Inl ''dimensions unreadable'', sheet_merged_ranges = Inl ''merged unreadable'',
      sheet_protection = Inl ''protection unreadable'',
      sheet_rows = [Inl ''rows unreadable''],
      sheet_tables = Inl ''tables unreadable''\<rparr>"

definition workbook_of :: "sheet list \<Rightarrow> workbook" where
  "workbook_of sheets =
     \<lparr>wb_worksheets = sheets, wb_defined_names = Inr (Some 0), wb_vba_archive = False\<rparr>"

definition single_sheet_workbook :: workbook where
  "single_sheet_workbook = workbook_of [blank_sheet ''Sheet1'']"

definition monthly_workbook :: workbook where
  "monthly_workbook =
     workbook_of (map blank_sheet [''Jan_Input'', ''Feb_Input'', ''Q1_Report'', ''Summary''])"

definition pipeline_workbook :: workbook where
  "pipeline_workbook =
     workbook_of (map blank_sheet
       [''Input 2023'', ''Input 2024'', ''Calc'', ''Report'', ''Template''])"

definition broken_workbook :: workbook where
  "broken_workbook =
     \<lparr>wb_worksheets = [broken_sheet ''Data''], wb_defined_names = Inl ''names unreadable'',
      wb_vba_archive = False\<rparr>"

section \<open>Properties of the tool recommender\<close>

lemma remove_duplicates_subseq: "subseq (remove_duplicates seen xs) xs"
  by (induction xs arbitrary: seen) auto

lemma remove_duplicates_set: "set (remove_duplicates seen xs) = set xs - seen"
  by (induction xs arbitrary: seen) auto

lemma remove_duplicates_distinct: "distinct (remove_duplicates seen xs)"
  by (induction xs arbitrary: seen) (auto simp: remove_duplicates_set)

lemma remove_duplicates_nonempty: "xs \<noteq> [] \<Longrightarrow> remove_duplicates {} xs \<noteq> []"
  by (cases xs) auto

lemma python_rule_fires: "50 \<le> o_s \<Longrightarrow> fc < 6 / 10 \<Longrightarrow> python_rule o_s fc m \<noteq> []"
  by (simp add: python_rule_def)

lemma vba_rule_fires: "5 / 10 < fc \<Longrightarrow> vba_rule o_s fc n m \<noteq> []"
  by (simp add: vba_rule_def)

lemma rpa_rule_fires: "o_s < 50 \<Longrightarrow> rpa_rule o_s n \<noteq> []"
  by (simp add: rpa_rule_def)

text \<open>
  Below 50 the RPA rule fires; from 50 on either the Python rule fires (complexity below
  0.6) or the VBA rule does (complexity above 0.5).
\<close>

lemma recommendation_rules_nonempty: "recommendation_rules results summary \<noteq> []"
proof -
  define o_s where "o_s = dict_get (as_overall_score summary) 0"
  define fc where "fc = dict_get (as_formula_complexity_ratio summary) 0"
  consider "o_s < 50" | "50 \<le> o_s" "fc < 6 / 10" | "50 \<le> o_s" "5 / 10 < fc"
    by fastforce
  then show ?thesis
  proof cases
    case 1
    then show ?thesis
      unfolding recommendation_rules_def Let_def o_s_def
      using rpa_rule_fires by simp
  next
    case 2
    then show ?thesis
      unfolding recommendation_rules_def Let_def o_s_def fc_def
      using python_rule_fires by simp
  next
    case 3
    then show ?thesis
      unfolding recommendation_rules_def Let_def o_s_def fc_def
      using vba_rule_fires by simp
  qed
qed

text \<open>
  C10. For every analysis summary and every stored pattern result, the list returned by
  \<^verbatim>\<open>recommend_automation_tools\<close> keeps the order in which the rules emitted their
  texts (it is a subsequence of the emitted list), has no duplicates, has at most 8
  entries and is not empty, because at least one rule always fires.
\<close>

theorem recommend_automation_tools_ordered_unique_capped:
  "subseq (recommend_automation_tools results summary) (recommendation_rules results summary)
   \<and> distinct (recommend_automation_tools results summary)
   \<and> length (recommend_automation_tools results summary) \<le> 8
   \<and> recommendation_rules results summary \<noteq> []
   \<and> recommend_automation_tools results summary \<noteq> []"
proof -
  let ?rs = "recommendation_rules results summary"
  have "subseq (take 8 (remove_duplicates {} ?rs)) (remove_duplicates {} ?rs)"
    by (metis append_take_drop_id prefix_def prefix_imp_subseq)
  then have 1: "subseq (take 8 (remove_duplicates {} ?rs)) ?rs"
    using remove_duplicates_subseq subseq_order.trans by blast
  have 2: "distinct (take 8 (remove_duplicates {} ?rs))"
    by (simp add: remove_duplicates_distinct)
  have 3: "take 8 (remove_duplicates {} ?rs) \<noteq> []"
    using remove_duplicates_nonempty [OF recommendation_rules_nonempty] by simp
  show ?thesis
    using 1 2 3 recommendation_rules_nonempty by (simp add: recommend_automation_tools_def)
qed

end
